theory Spec2Isabelle
  imports Main "HOL-Library.Word" "HOL-Library.Char_ord" "HOL-Library.List_Lexorder"
begin

unbundle bit_operations_syntax

section \<open>Paths\<close>

text \<open>
  A \<open>std::filesystem::path\<close> is kept as the list of its elements, the root first:
  \<open>D:\proj\a.dwg\<close> is \<open>[D:\, proj, a.dwg]\<close>. Every path of the program is absolute (it
  comes from \<open>fs::current_path()\<close> or from iterating a drive root). The order on paths used
  by \<open>std::map\<close> and \<open>operator<\<close> compares element by element, each element as a string of
  code units: that is the lexicographic order of \<open>string list\<close>.
\<close>

type_synonym path = "string list"

definition backslash :: char where
  "backslash = CHR 0x5C"

text \<open>A drive root: the letter, a colon and a backslash.\<close>

definition drive_root :: "char \<Rightarrow> string" where
  "drive_root c = [c] @ [CHR '':'', backslash]"

definition parent_path :: "path \<Rightarrow> path" where
  "parent_path p = (if length p \<le> 1 then p else butlast p)"

definition has_parent_path :: "path \<Rightarrow> bool" where
  "has_parent_path p = (parent_path p \<noteq> [])"

definition filename :: "path \<Rightarrow> string" where
  "filename p = (if length p \<le> 1 then [] else last p)"

text \<open>\<open>operator/\<close> with a single file name on the right.\<close>

definition slash :: "path \<Rightarrow> string \<Rightarrow> path" where
  "slash p n = p @ [n]"

text \<open>
  \<open>path::extension()\<close>: the part of the file name from its rightmost period on; empty when
  there is no period, when the name is \<open>..\<close>, and when the only period is the first
  character (\<open>.hidden\<close>, \<open>.\<close>).
\<close>

definition extension :: "path \<Rightarrow> string" where
  "extension p =
     (let f = filename p in
      if f = ''..'' then []
      else if CHR ''.'' \<in> set f
      then (let suffix = rev (takeWhile (\<lambda>c. c \<noteq> CHR ''.'') (rev f))
            in if length f - length suffix - 1 = 0 then [] else CHR ''.'' # suffix)
      else [])"

definition stem :: "path \<Rightarrow> string" where
  "stem p = (let f = filename p in take (length f - length (extension p)) f)"

fun join_sep :: "string list \<Rightarrow> string" where
  "join_sep [] = []"
| "join_sep [x] = x"
| "join_sep (x # y # ys) = x @ [backslash] @ join_sep (y # ys)"

text \<open>\<open>path::wstring()\<close>: the root, then the other elements separated by backslashes.\<close>

definition wstring :: "path \<Rightarrow> string" where
  "wstring p = (case p of [] \<Rightarrow> [] | r # cs \<Rightarrow> r @ join_sep cs)"

section \<open>The file system\<close>

text \<open>
  The file system is a forest whose top-level directories are the drive roots. A \<open>Denied\<close>
  directory cannot be opened for lack of permission; opening a \<open>Broken\<close> directory fails
  with another \<open>fs::filesystem_error\<close> (device not ready, ...).
\<close>

datatype node =
    File string
  | Dir string "node list"
  | Denied string
  | Broken string

fun node_name :: "node \<Rightarrow> string" where
  "node_name (File n) = n"
| "node_name (Dir n cs) = n"
| "node_name (Denied n) = n"
| "node_name (Broken n) = n"

fun children :: "node \<Rightarrow> node list" where
  "children (Dir n cs) = cs"
| "children _ = []"

text \<open>\<open>fs::exists\<close>: the path resolves to a node.\<close>

fun resolve :: "node list \<Rightarrow> path \<Rightarrow> node option" where
  "resolve ns [] = None"
| "resolve [] (x # xs) = None"
| "resolve (n # ns) (x # xs) =
     (if node_name n = x
      then (if xs = [] then Some n else resolve (children n) xs)
      else resolve ns (x # xs))"

definition fs_exists :: "node list \<Rightarrow> path \<Rightarrow> bool" where
  "fs_exists ns p = (resolve ns p \<noteq> None)"

text \<open>A \<open>directory_entry\<close>: its path and whether it is a regular file.\<close>

record entry =
  epath :: path
  is_regular_file :: bool

text \<open>
  \<open>fs::recursive_directory_iterator(drive, skip_permission_denied)\<close> in a range-for: the
  entries below the drive in pre-order. A directory is yielded and then entered; a \<open>Denied\<close>
  directory is yielded and passed over; at a \<open>Broken\<close> directory the increment throws, which
  the second component reports. Both callers catch the exception around the whole loop, so
  they see the entries yielded before it and nothing else.
\<close>

fun walk_node :: "path \<Rightarrow> node \<Rightarrow> entry list \<times> bool"
  and walk_nodes :: "path \<Rightarrow> node list \<Rightarrow> entry list \<times> bool" where
  "walk_node d (File n) = ([\<lparr>epath = slash d n, is_regular_file = True\<rparr>], False)"
| "walk_node d (Dir n cs) =
     (case walk_nodes (slash d n) cs of
        (es, thrown) \<Rightarrow> (\<lparr>epath = slash d n, is_regular_file = False\<rparr> # es, thrown))"
| "walk_node d (Denied n) = ([\<lparr>epath = slash d n, is_regular_file = False\<rparr>], False)"
| "walk_node d (Broken n) = ([\<lparr>epath = slash d n, is_regular_file = False\<rparr>], True)"
| "walk_nodes d [] = ([], False)"
| "walk_nodes d (c # cs) =
     (case walk_node d c of
        (es, thrown) \<Rightarrow>
          if thrown then (es, True)
          else (case walk_nodes d cs of (es', thrown') \<Rightarrow> (es @ es', thrown')))"

definition recursive_directory_iterator :: "node list \<Rightarrow> string \<Rightarrow> entry list" where
  "recursive_directory_iterator ns drive =
     (case resolve ns [drive] of
        Some (Dir n cs) \<Rightarrow> fst (walk_nodes [drive] cs)
      | _ \<Rightarrow> [])"

section \<open>The environment and the converter object\<close>

text \<open>
  What a process started by \<open>CreateProcessW\<close> does, as the program observes it: the call
  fails, or the process ends with an exit code before the wait is over, or the wait times
  out.
\<close>

datatype process = LaunchFailed | Exited "32 word" | TimedOut

text \<open>\<open>GetExitCodeProcess\<close>: a process that is still running reports \<open>STILL_ACTIVE\<close>.\<close>

definition STILL_ACTIVE :: "32 word" where
  "STILL_ACTIVE = 259"

fun GetExitCodeProcess :: "process \<Rightarrow> 32 word" where
  "GetExitCodeProcess (Exited c) = c"
| "GetExitCodeProcess TimedOut = STILL_ACTIVE"
| "GetExitCodeProcess LaunchFailed = 0"

text \<open>
  Everything the program reads from outside: the file system when the program starts, the
  working directory, the answers of the drive queries, the number read from standard input
  (\<open>0\<close> when the input is not a number), and for each of the two external processes what
  it does, given its command line, and the file system found once the wait on it has
  returned. \<open>fs::exists\<close> and \<open>fs::create_directories\<close> are taken not to fail.
\<close>

record env =
  files :: "node list"
  current_path :: path
  GetLogicalDrives :: "32 word"
  GetDriveTypeA :: "string \<Rightarrow> 32 word"
  GetDiskFreeSpaceA :: "string \<Rightarrow> bool"
  cin_choice :: int
  converter_process :: "string \<Rightarrow> process"
  files_after_converter :: "node list"
  renderer_process :: "string \<Rightarrow> process"
  files_after_renderer :: "node list"

definition DRIVE_REMOVABLE :: "32 word" where
  "DRIVE_REMOVABLE = 2"

definition DRIVE_FIXED :: "32 word" where
  "DRIVE_FIXED = 3"

text \<open>
  What the program does to the outside, in order: the recursive walks it starts, the
  directories it creates and the processes it tries to start (the command line, and for the
  converter the working directory).
\<close>

datatype effect =
    Walk string
  | CreateDirectories path
  | RunConverter string path
  | RunRenderer string

text \<open>The fields of \<open>class DWGConverter\<close>, and the effects so far.\<close>

record DWGConverter =
  oda_converter_path :: path
  python_renderer_path :: path
  output_dxf_dir :: path
  output_pdf_dir :: path
  all_dwg_files :: "path list"
  trace :: "effect list"

definition new_DWGConverter :: DWGConverter where
  "new_DWGConverter =
     \<lparr>oda_converter_path = [], python_renderer_path = [], output_dxf_dir = [],
      output_pdf_dir = [], all_dwg_files = [], trace = []\<rparr>"

section \<open>Drive enumeration\<close>

text \<open>
  The loop of \<open>getAvailableDrives\<close> over the letters, the mask shifted right at each step.
\<close>

fun drives_loop :: "env \<Rightarrow> string \<Rightarrow> 32 word \<Rightarrow> string list" where
  "drives_loop E [] drives_mask = []"
| "drives_loop E (drive # letters) drives_mask =
     (let drive_path = drive_root drive;
          rest = drives_loop E letters (drop_bit 1 drives_mask)
      in if drives_mask AND 1 \<noteq> 0
         then (let drive_type = GetDriveTypeA E drive_path
               in if drive_type = DRIVE_FIXED \<or> drive_type = DRIVE_REMOVABLE
                  then (if GetDiskFreeSpaceA E drive_path then drive_path # rest else rest)
                  else rest)
         else rest)"

definition getAvailableDrives :: "env \<Rightarrow> string list" where
  "getAvailableDrives E = drives_loop E ''ABCDEFGHIJKLMNOPQRSTUVWXYZ'' (GetLogicalDrives E)"

section \<open>Tool locator\<close>

definition has_dlls :: "env \<Rightarrow> path \<Rightarrow> bool" where
  "has_dlls E parent =
     (fs_exists (files E) (slash parent ''TD_Db.dll'') \<or>
      fs_exists (files E) (slash parent ''TG_Db.dll'') \<or>
      fs_exists (files E) (slash parent ''TD_Root.dll''))"

text \<open>The loop over the entries of one drive in \<open>findODAConverter\<close>.\<close>

fun oda_in_entries :: "env \<Rightarrow> entry list \<Rightarrow> path option" where
  "oda_in_entries E [] = None"
| "oda_in_entries E (e # es) =
     (if is_regular_file e \<and> filename (epath e) = ''ODAFileConverter.exe''
      then (if has_dlls E (parent_path (epath e)) then Some (epath e)
            else oda_in_entries E es)
      else oda_in_entries E es)"

text \<open>The loop over the drives in \<open>findODAConverter\<close>.\<close>

fun oda_in_drives :: "env \<Rightarrow> string list \<Rightarrow> DWGConverter \<Rightarrow> bool \<times> DWGConverter" where
  "oda_in_drives E [] s = (False, s)"
| "oda_in_drives E (drive # drives) s =
     (let s1 = s\<lparr>trace := trace s @ [Walk drive]\<rparr>
      in case oda_in_entries E (recursive_directory_iterator (files E) drive) of
           Some p \<Rightarrow> (True, s1\<lparr>oda_converter_path := p\<rparr>)
         | None \<Rightarrow> oda_in_drives E drives s1)"

definition findODAConverter :: "env \<Rightarrow> DWGConverter \<Rightarrow> bool \<times> DWGConverter" where
  "findODAConverter E s =
     (let exe_dir = current_path E;
          parent_dir = parent_path exe_dir;
          oda_in_grandparent = slash (parent_path parent_dir) ''ODAFileConverter.exe'';
          oda_in_parent = slash parent_dir ''ODAFileConverter.exe'';
          oda_in_current = slash exe_dir ''ODAFileConverter.exe''
      in if has_parent_path parent_dir \<and> fs_exists (files E) oda_in_grandparent
         then (True, s\<lparr>oda_converter_path := oda_in_grandparent\<rparr>)
         else if fs_exists (files E) oda_in_parent
         then (True, s\<lparr>oda_converter_path := oda_in_parent\<rparr>)
         else if fs_exists (files E) oda_in_current
         then (True, s\<lparr>oda_converter_path := oda_in_current\<rparr>)
         else oda_in_drives E (getAvailableDrives E) s)"

definition findPythonRenderer :: "env \<Rightarrow> DWGConverter \<Rightarrow> bool \<times> DWGConverter" where
  "findPythonRenderer E s =
     (let exe_dir = current_path E;
          renderer_in_current = slash exe_dir ''dxf_renderer.py'';
          renderer_in_parent = slash (parent_path exe_dir) ''dxf_renderer.py''
      in if fs_exists (files E) renderer_in_current
         then (True, s\<lparr>python_renderer_path := renderer_in_current\<rparr>)
         else if fs_exists (files E) renderer_in_parent
         then (True, s\<lparr>python_renderer_path := renderer_in_parent\<rparr>)
         else (False, s))"

section \<open>File scanner\<close>

definition skip_folders :: "string list" where
  "skip_folders =
     [''Windows'', ''ProgramData'', ''$Recycle.Bin'', ''System Volume Information'',
      ''Recovery'']"

text \<open>The inner loop that sets \<open>should_skip\<close>.\<close>

fun should_skip :: "string \<Rightarrow> string list \<Rightarrow> bool" where
  "should_skip folder_name [] = False"
| "should_skip folder_name (skip # skips) =
     (if folder_name = skip then True else should_skip folder_name skips)"

text \<open>
  The loop of \<open>searchDWGInDrive\<close> over the entries: \<open>continue\<close> goes on with the next entry
  of the iterator (the iterator is not told to leave the directory out).
\<close>

fun dwg_in_entries :: "entry list \<Rightarrow> path list \<times> int \<Rightarrow> path list \<times> int" where
  "dwg_in_entries [] (fs, count) = (fs, count)"
| "dwg_in_entries (e # es) (fs, count) =
     (if should_skip (filename (epath e)) skip_folders then dwg_in_entries es (fs, count)
      else if is_regular_file e \<and> extension (epath e) = ''.dwg''
      then dwg_in_entries es (fs @ [epath e], count + 1)
      else dwg_in_entries es (fs, count))"

definition searchDWGInDrive :: "env \<Rightarrow> string \<Rightarrow> DWGConverter \<Rightarrow> int \<times> DWGConverter" where
  "searchDWGInDrive E drive s =
     (case dwg_in_entries (recursive_directory_iterator (files E) drive) (all_dwg_files s, 0) of
        (fs, count) \<Rightarrow> (count, s\<lparr>all_dwg_files := fs, trace := trace s @ [Walk drive]\<rparr>))"

text \<open>The loop of \<open>findAllDWGFiles\<close> over the drives.\<close>

fun dwg_in_drives :: "env \<Rightarrow> string list \<Rightarrow> int \<times> DWGConverter \<Rightarrow> int \<times> DWGConverter" where
  "dwg_in_drives E [] (total_found, s) = (total_found, s)"
| "dwg_in_drives E (drive # drives) (total_found, s) =
     (case searchDWGInDrive E drive s of
        (count, s1) \<Rightarrow> dwg_in_drives E drives (total_found + count, s1))"

text \<open>
  \<open>std::sort\<close> with the comparison \<open>a.filename() < b.filename()\<close> is a sort on the key
  \<open>filename\<close>. (How \<open>std::sort\<close> orders paths of equal file name is not fixed by the
  language; \<open>sort_key\<close> keeps them in their order.)
\<close>

definition findAllDWGFiles :: "env \<Rightarrow> DWGConverter \<Rightarrow> DWGConverter" where
  "findAllDWGFiles E s =
     (let drives = getAvailableDrives E;
          s1 = s\<lparr>all_dwg_files := []\<rparr>
      in case dwg_in_drives E drives (0, s1) of
           (total_found, s2) \<Rightarrow> s2\<lparr>all_dwg_files := sort_key filename (all_dwg_files s2)\<rparr>)"

section \<open>Selection presenter\<close>

text \<open>\<open>grouped[k].push_back(f)\<close> on a \<open>std::map\<close>, kept as a list in the order of its keys.\<close>

fun grouped_push_back :: "path \<Rightarrow> path \<Rightarrow> (path \<times> path list) list \<Rightarrow> (path \<times> path list) list" where
  "grouped_push_back k f [] = [(k, [f])]"
| "grouped_push_back k f ((k', fs) # rest) =
     (if k = k' then (k', fs @ [f]) # rest
      else if k < k' then (k, [f]) # (k', fs) # rest
      else (k', fs) # grouped_push_back k f rest)"

fun group_files :: "path list \<Rightarrow> (path \<times> path list) list \<Rightarrow> (path \<times> path list) list" where
  "group_files [] grouped = grouped"
| "group_files (file # rest) grouped =
     group_files rest (grouped_push_back (parent_path file) file grouped)"

text \<open>The numbered lines, each with the file it stands for.\<close>

fun number_files :: "int \<Rightarrow> path list \<Rightarrow> (int \<times> path) list" where
  "number_files file_num [] = []"
| "number_files file_num (file # rest) = (file_num, file) # number_files (file_num + 1) rest"

fun number_groups :: "int \<Rightarrow> (path \<times> path list) list \<Rightarrow> (int \<times> path) list" where
  "number_groups file_num [] = []"
| "number_groups file_num ((dir, fs) # rest) =
     number_files file_num fs @ number_groups (file_num + int (length fs)) rest"

definition displayDWGFiles :: "DWGConverter \<Rightarrow> (int \<times> path) list" where
  "displayDWGFiles s =
     (if all_dwg_files s = [] then []
      else number_groups 1 (group_files (all_dwg_files s) []))"

section \<open>Pipeline runner\<close>

definition quoted :: "string \<Rightarrow> string" where
  "quoted x = [CHR 0x22] @ x @ [CHR 0x22]"

text \<open>
  \<open>convertDWGtoDXF\<close>: the result, the reference parameter \<open>output_dxf\<close> and the object.
\<close>

definition convertDWGtoDXF ::
  "env \<Rightarrow> path \<Rightarrow> path \<Rightarrow> DWGConverter \<Rightarrow> bool \<times> path \<times> DWGConverter" where
  "convertDWGtoDXF E dwg_file output_dxf s =
     (let dxf_dir = slash (parent_path dwg_file) ''convertedDXF'';
          cmd = quoted (wstring (oda_converter_path s)) @ '' '' @
                quoted (wstring (parent_path dwg_file)) @ '' '' @
                quoted (wstring dxf_dir) @ '' '' @
                ''ACAD2010 DXF 0 1 '' @
                quoted (filename dwg_file);
          s1 = s\<lparr>output_dxf_dir := dxf_dir,
                 trace := trace s @ [CreateDirectories dxf_dir,
                                     RunConverter cmd (parent_path (oda_converter_path s))]\<rparr>;
          pi = converter_process E cmd
      in if pi = LaunchFailed then (False, output_dxf, s1)
         else (let exit_code = GetExitCodeProcess pi;
                   output_dxf' = slash dxf_dir (stem dwg_file @ ''.dxf'')
               in if fs_exists (files_after_converter E) output_dxf'
                  then (True, output_dxf', s1)
                  else (False, output_dxf', s1)))"

definition renderDXFtoPDF ::
  "env \<Rightarrow> path \<Rightarrow> path \<Rightarrow> DWGConverter \<Rightarrow> bool \<times> DWGConverter" where
  "renderDXFtoPDF E dxf_file dwg_file s =
     (let pdf_dir = slash (parent_path dwg_file) ''convertedPDF'';
          output_pdf = slash pdf_dir (stem dwg_file @ ''.pdf'');
          cmd = ''python '' @ quoted (wstring (python_renderer_path s)) @ '' '' @
                quoted (wstring dxf_file) @ '' '' @ quoted (wstring output_pdf);
          s1 = s\<lparr>output_pdf_dir := pdf_dir,
                 trace := trace s @ [CreateDirectories pdf_dir, RunRenderer cmd]\<rparr>;
          pi = renderer_process E cmd
      in if pi = LaunchFailed then (False, s1)
         else (let exit_code = GetExitCodeProcess pi
               in if exit_code = 0 \<and> fs_exists (files_after_renderer E) output_pdf
                  then (True, s1)
                  else (False, s1)))"

text \<open>
  Steps 1 to 5 of \<open>run\<close>: \<open>Inl\<close> is \<open>return false\<close> with the object as it is then,
  \<open>Inr\<close> carries \<open>selected_file\<close> on to step 6. Step 4, the listing, only prints
  (what it prints is \<open>displayDWGFiles\<close> above) and changes nothing.
\<close>

definition run_select :: "env \<Rightarrow> DWGConverter \<Rightarrow> DWGConverter + path \<times> DWGConverter" where
  "run_select E s =
     (case findODAConverter E s of
        (found_oda, s1) \<Rightarrow>
          if \<not> found_oda then Inl s1
          else (case findPythonRenderer E s1 of
                  (found_renderer, s2) \<Rightarrow>
                    if \<not> found_renderer then Inl s2
                    else (let s3 = findAllDWGFiles E s2
                          in if all_dwg_files s3 = [] then Inl s3
                             else (let choice = cin_choice E
                                   in if choice \<le> 0 \<or> choice > int (length (all_dwg_files s3))
                                      then Inl s3
                                      else Inr (all_dwg_files s3 ! nat (choice - 1), s3)))))"

text \<open>Step 6 of \<open>run\<close>: the two stages.\<close>

definition run_convert :: "env \<Rightarrow> path \<Rightarrow> DWGConverter \<Rightarrow> bool \<times> DWGConverter" where
  "run_convert E selected_file s =
     (case convertDWGtoDXF E selected_file [] s of
        (converted, dxf_file, s1) \<Rightarrow>
          if \<not> converted then (False, s1)
          else (case renderDXFtoPDF E dxf_file selected_file s1 of
                  (rendered, s2) \<Rightarrow> if \<not> rendered then (False, s2) else (True, s2)))"

definition run :: "env \<Rightarrow> bool \<times> DWGConverter" where
  "run E =
     (case run_select E new_DWGConverter of
        Inl s \<Rightarrow> (False, s)
      | Inr (selected_file, s) \<Rightarrow> run_convert E selected_file s)"

section \<open>Notions used in the statements\<close>

text \<open>
  The test of \<open>findODAConverter\<close> on an entry of a drive walk: a regular file of the
  converter's name with one of the three libraries beside it.
\<close>

definition acceptable :: "env \<Rightarrow> entry \<Rightarrow> bool" where
  "acceptable E e =
     (is_regular_file e \<and> filename (epath e) = ''ODAFileConverter.exe'' \<and>
      has_dlls E (parent_path (epath e)))"

text \<open>The paths that the loop of \<open>searchDWGInDrive\<close> appends, in the order of the entries.\<close>

definition dwg_paths :: "entry list \<Rightarrow> path list" where
  "dwg_paths es =
     map epath (filter (\<lambda>e. is_regular_file e \<and> extension (epath e) = ''.dwg'') es)"

text \<open>
  The effects of stage 2: starting the renderer, creating a \<open>convertedPDF\<close> directory.
\<close>

fun stage2_effect :: "effect \<Rightarrow> bool" where
  "stage2_effect (RunRenderer cmd) = True"
| "stage2_effect (CreateDirectories p) = (filename p = ''convertedPDF'')"
| "stage2_effect _ = False"

text \<open>The effects of either stage: creating an output directory, starting a process.\<close>

fun pipeline_effect :: "effect \<Rightarrow> bool" where
  "pipeline_effect (Walk d) = False"
| "pipeline_effect _ = True"

text \<open>The file that \<open>run\<close> hands to the stages, if it gets that far.\<close>

definition selected_file :: "env \<Rightarrow> path option" where
  "selected_file E =
     (case run_select E new_DWGConverter of Inl s \<Rightarrow> None | Inr (f, s) \<Rightarrow> Some f)"

section \<open>Sample environments\<close>

text \<open>
  Two fixed drives, \<open>C:\<close> and \<open>D:\<close>, both ready; the converter process does \<open>proc\<close> and
  leaves the file system \<open>after\<close>; the renderer ends with exit code 0.
\<close>

definition sample_env :: "node list \<Rightarrow> path \<Rightarrow> int \<Rightarrow> process \<Rightarrow> node list \<Rightarrow> env" where
  "sample_env fs cwd choice proc after =
     \<lparr>files = fs, current_path = cwd, GetLogicalDrives = 12,
      GetDriveTypeA = (\<lambda>d. DRIVE_FIXED), GetDiskFreeSpaceA = (\<lambda>d. True),
      cin_choice = choice, converter_process = (\<lambda>cmd. proc), files_after_converter = after,
      renderer_process = (\<lambda>cmd. Exited 0), files_after_renderer = after\<rparr>"

definition C_root :: string where
  "C_root = drive_root CHR ''C''"

definition D_root :: string where
  "D_root = drive_root CHR ''D''"

text \<open>The scenario of the specification: \<open>C:\Windows\x.dwg\<close>, \<open>D:\proj\a.dwg\<close>, \<open>D:\proj\b.dwg\<close>.\<close>

definition scenario_files :: "node list" where
  "scenario_files =
     [Dir C_root [Dir ''Windows'' [File ''x.dwg'']],
      Dir D_root [Dir ''proj'' [File ''a.dwg'', File ''b.dwg'']]]"

definition scenario_env :: env where
  "scenario_env = sample_env scenario_files [D_root, ''proj''] 1 (Exited 0) scenario_files"

text \<open>
  Two drawings in two directories, \<open>D:\a\z.dwg\<close> and \<open>D:\b\a.dwg\<close>, and both tools in the
  working directory \<open>D:\tools\<close>. The converter leaves the file system as it is.
\<close>

definition listing_files :: "node list" where
  "listing_files =
     [Dir C_root [],
      Dir D_root
        [Dir ''a'' [File ''z.dwg''],
         Dir ''b'' [File ''a.dwg''],
         Dir ''tools'' [File ''ODAFileConverter.exe'', File ''dxf_renderer.py'']]]"

definition listing_env :: "int \<Rightarrow> env" where
  "listing_env choice =
     sample_env listing_files [D_root, ''tools''] choice (Exited 0) listing_files"

text \<open>
  \<open>D:\proj\a.dwg\<close> with a \<open>convertedDXF\a.dxf\<close> beside it that an earlier run has left, and
  a converter process that does \<open>proc\<close> and writes nothing.
\<close>

definition stale_files :: "node list" where
  "stale_files =
     [Dir C_root [],
      Dir D_root [Dir ''proj'' [File ''a.dwg'', Dir ''convertedDXF'' [File ''a.dxf'']]]]"

definition stale_env :: "process \<Rightarrow> env" where
  "stale_env proc = sample_env stale_files [D_root, ''proj''] 1 proc stale_files"

text \<open>
  The working directory \<open>C:\a\b\<close> with a converter in it and another one in its
  grandparent \<open>C:\\<close>.
\<close>

definition nearby_files :: "node list" where
  "nearby_files =
     [Dir C_root
        [File ''ODAFileConverter.exe'',
         Dir ''a'' [Dir ''b'' [File ''ODAFileConverter.exe'']]],
      Dir D_root []]"

definition nearby_env :: env where
  "nearby_env = sample_env nearby_files [C_root, ''a'', ''b''] 1 (Exited 0) nearby_files"

text \<open>
  The working directory \<open>C:\a\b\<close> with no tool near it; on \<open>D:\<close> a converter without
  libraries in \<open>x\<close>, one with \<open>TD_Db.dll\<close> in \<open>y\<close>, and the renderer script in \<open>tools\<close>.
\<close>

definition remote_files :: "node list" where
  "remote_files =
     [Dir C_root [Dir ''a'' [Dir ''b'' []]],
      Dir D_root
        [Dir ''x'' [File ''ODAFileConverter.exe''],
         Dir ''y'' [File ''ODAFileConverter.exe'', File ''TD_Db.dll''],
         Dir ''tools'' [File ''dxf_renderer.py'']]]"

definition remote_env :: env where
  "remote_env = sample_env remote_files [C_root, ''a'', ''b''] 1 (Exited 0) remote_files"

text \<open>\<open>D:\proj\<close> with \<open>site.dwg\<close> and \<open>PLAN.DWG\<close>.\<close>

definition case_files :: "node list" where
  "case_files =
     [Dir C_root [],
      Dir D_root [Dir ''proj'' [File ''site.dwg'', File ''PLAN.DWG'']]]"

definition case_env :: env where
  "case_env = sample_env case_files [D_root, ''proj''] 1 (Exited 0) case_files"

text \<open>
  \<open>D:\proj\a.dwg\<close> with a \<open>convertedDXF\a.dxf\<close> left by an earlier run, both tools in the
  working directory \<open>D:\tools\<close>, the choice 1, and a converter process that is still
  running when the wait times out and has written nothing.
\<close>

definition timeout_files :: "node list" where
  "timeout_files =
     [Dir C_root [],
      Dir D_root
        [Dir ''proj'' [File ''a.dwg'', Dir ''convertedDXF'' [File ''a.dxf'']],
         Dir ''tools'' [File ''ODAFileConverter.exe'', File ''dxf_renderer.py'']]]"

definition timeout_env :: env where
  "timeout_env = sample_env timeout_files [D_root, ''tools''] 1 TimedOut timeout_files"

text \<open>
  The working directory \<open>C:\a\b\<close> with no tool near it; on \<open>D:\<close> a directory \<open>bad\<close> that
  cannot be read (a file system error other than a denied permission), and after it the
  directory \<open>y\<close> with a converter and \<open>TD_Db.dll\<close>.
\<close>

definition broken_files :: "node list" where
  "broken_files =
     [Dir C_root [Dir ''a'' [Dir ''b'' []]],
      Dir D_root
        [Broken ''bad'',
         Dir ''y'' [File ''ODAFileConverter.exe'', File ''TD_Db.dll'']]]"

definition broken_env :: env where
  "broken_env = sample_env broken_files [C_root, ''a'', ''b''] 1 (Exited 0) broken_files"

section \<open>The scanner's loops\<close>

lemma should_skip_iff: "should_skip f ks \<longleftrightarrow> f \<in> set ks"
  by (induction ks) auto

lemma skipped_extension: "should_skip (filename p) skip_folders \<Longrightarrow> extension p \<noteq> ''.dwg''"
  by (auto simp: should_skip_iff skip_folders_def extension_def)

lemma dwg_in_entries_eq:
  "dwg_in_entries es (fs, c) = (fs @ dwg_paths es, c + int (length (dwg_paths es)))"
proof (induction es arbitrary: fs c)
  case Nil
  show ?case by (simp add: dwg_paths_def)
next
  case (Cons e es)
  show ?case
  proof (cases "should_skip (filename (epath e)) skip_folders")
    case True
    then have "extension (epath e) \<noteq> ''.dwg''" by (rule skipped_extension)
    with True Cons show ?thesis by (simp add: dwg_paths_def)
  next
    case False
    with Cons show ?thesis by (simp add: dwg_paths_def)
  qed
qed

lemma searchDWGInDrive_files:
  "all_dwg_files (snd (searchDWGInDrive E d s)) =
     all_dwg_files s @ dwg_paths (recursive_directory_iterator (files E) d)"
  by (simp add: searchDWGInDrive_def dwg_in_entries_eq)

lemma searchDWGInDrive_trace:
  "trace (snd (searchDWGInDrive E d s)) = trace s @ [Walk d]"
  by (simp add: searchDWGInDrive_def dwg_in_entries_eq)

lemma dwg_in_drives_files:
  "all_dwg_files (snd (dwg_in_drives E ds (t, s))) =
     all_dwg_files s @ concat (map (\<lambda>d. dwg_paths (recursive_directory_iterator (files E) d)) ds)"
proof (induction ds arbitrary: t s)
  case Nil
  show ?case by simp
next
  case (Cons d ds)
  obtain c s1 where step: "searchDWGInDrive E d s = (c, s1)" by (cases "searchDWGInDrive E d s")
  then have "all_dwg_files s1 = all_dwg_files s @ dwg_paths (recursive_directory_iterator (files E) d)"
    using searchDWGInDrive_files [of E d s] by simp
  with step Cons [of "t + c" s1] show ?case by simp
qed

lemma dwg_in_drives_trace:
  "trace (snd (dwg_in_drives E ds (t, s))) = trace s @ map Walk ds"
proof (induction ds arbitrary: t s)
  case Nil
  show ?case by simp
next
  case (Cons d ds)
  obtain c s1 where step: "searchDWGInDrive E d s = (c, s1)" by (cases "searchDWGInDrive E d s")
  then have "trace s1 = trace s @ [Walk d]"
    using searchDWGInDrive_trace [of E d s] by simp
  with step Cons [of "t + c" s1] show ?case by simp
qed

lemma findAllDWGFiles_files:
  "all_dwg_files (findAllDWGFiles E s) =
     sort_key filename
       (concat (map (\<lambda>d. dwg_paths (recursive_directory_iterator (files E) d))
                    (getAvailableDrives E)))"
proof -
  obtain t s2 where r: "dwg_in_drives E (getAvailableDrives E) (0, s\<lparr>all_dwg_files := []\<rparr>) = (t, s2)"
    by (cases "dwg_in_drives E (getAvailableDrives E) (0, s\<lparr>all_dwg_files := []\<rparr>)")
  then show ?thesis
    using dwg_in_drives_files [of E "getAvailableDrives E" 0 "s\<lparr>all_dwg_files := []\<rparr>"]
    by (simp add: findAllDWGFiles_def)
qed

lemma findAllDWGFiles_trace:
  "trace (findAllDWGFiles E s) = trace s @ map Walk (getAvailableDrives E)"
proof -
  obtain t s2 where r: "dwg_in_drives E (getAvailableDrives E) (0, s\<lparr>all_dwg_files := []\<rparr>) = (t, s2)"
    by (cases "dwg_in_drives E (getAvailableDrives E) (0, s\<lparr>all_dwg_files := []\<rparr>)")
  then show ?thesis
    using dwg_in_drives_trace [of E "getAvailableDrives E" 0 "s\<lparr>all_dwg_files := []\<rparr>"]
    by (simp add: findAllDWGFiles_def)
qed

section \<open>The locator's loops\<close>

lemma oda_in_entries_Some:
  "oda_in_entries E es = Some p \<Longrightarrow> \<exists>e \<in> set es. epath e = p \<and> acceptable E e"
  by (induction es) (auto simp: acceptable_def split: if_splits)

lemma oda_in_entries_None:
  "oda_in_entries E es = None \<longleftrightarrow> (\<forall>e \<in> set es. \<not> acceptable E e)"
  by (induction es) (auto simp: acceptable_def)

lemma oda_in_drives_found:
  "oda_in_drives E ds s = (True, s') \<Longrightarrow>
     \<exists>d \<in> set ds. \<exists>e \<in> set (recursive_directory_iterator (files E) d).
        oda_converter_path s' = epath e \<and> acceptable E e"
proof (induction ds arbitrary: s)
  case Nil
  then show ?case by simp
next
  case (Cons d ds)
  show ?case
  proof (cases "oda_in_entries E (recursive_directory_iterator (files E) d)")
    case None
    with Cons.prems have "oda_in_drives E ds (s\<lparr>trace := trace s @ [Walk d]\<rparr>) = (True, s')"
      by simp
    from Cons.IH [OF this] show ?thesis by auto
  next
    case (Some p)
    with Cons.prems have "oda_converter_path s' = p" by auto
    with oda_in_entries_Some [OF Some] show ?thesis by auto
  qed
qed

lemma oda_in_drives_not_found:
  "fst (oda_in_drives E ds s) = False \<longleftrightarrow>
     (\<forall>d \<in> set ds. \<forall>e \<in> set (recursive_directory_iterator (files E) d). \<not> acceptable E e)"
proof (induction ds arbitrary: s)
  case Nil
  show ?case by simp
next
  case (Cons d ds)
  show ?case
  proof (cases "oda_in_entries E (recursive_directory_iterator (files E) d)")
    case None
    then have "\<forall>e \<in> set (recursive_directory_iterator (files E) d). \<not> acceptable E e"
      by (simp add: oda_in_entries_None)
    with None Cons [of "s\<lparr>trace := trace s @ [Walk d]\<rparr>"] show ?thesis by simp
  next
    case (Some p)
    from oda_in_entries_Some [OF Some] Some show ?thesis by auto
  qed
qed

lemma oda_in_drives_all_walked:
  "fst (oda_in_drives E ds s) = False \<Longrightarrow>
     snd (oda_in_drives E ds s) = s\<lparr>trace := trace s @ map Walk ds\<rparr>"
proof (induction ds arbitrary: s)
  case Nil
  show ?case by simp
next
  case (Cons d ds)
  show ?case
  proof (cases "oda_in_entries E (recursive_directory_iterator (files E) d)")
    case None
    with Cons.prems have "fst (oda_in_drives E ds (s\<lparr>trace := trace s @ [Walk d]\<rparr>)) = False"
      by simp
    from Cons.IH [OF this] None show ?thesis by simp
  next
    case (Some p)
    with Cons.prems show ?thesis by simp
  qed
qed

lemma oda_in_drives_trace:
  "\<exists>ws. trace (snd (oda_in_drives E ds s)) = trace s @ map Walk ws"
proof (induction ds arbitrary: s)
  case Nil
  show ?case by simp
next
  case (Cons d ds)
  show ?case
  proof (cases "oda_in_entries E (recursive_directory_iterator (files E) d)")
    case None
    from Cons [of "s\<lparr>trace := trace s @ [Walk d]\<rparr>"] obtain ws where
      "trace (snd (oda_in_drives E ds (s\<lparr>trace := trace s @ [Walk d]\<rparr>))) = trace s @ map Walk (d # ws)"
      by auto
    with None show ?thesis by (simp del: list.map) blast
  next
    case (Some p)
    have "trace s @ [Walk d] = trace s @ map Walk [d]" by simp
    with Some show ?thesis by (simp del: list.map) blast
  qed
qed

lemma findODAConverter_trace:
  "\<exists>ws. trace (snd (findODAConverter E s)) = trace s @ map Walk ws"
proof -
  have triv: "\<exists>ws. trace s = trace s @ map Walk ws" by (rule exI [of _ "[]"]) simp
  show ?thesis
    using oda_in_drives_trace [of E "getAvailableDrives E" s] triv
    by (simp add: findODAConverter_def Let_def)
qed

lemma findPythonRenderer_trace:
  "trace (snd (findPythonRenderer E s)) = trace s"
  by (simp add: findPythonRenderer_def Let_def)

section \<open>The effects of a run\<close>

lemma run_select_trace:
  "\<exists>ws. trace (case_sum id snd (run_select E s)) = trace s @ map Walk ws"
proof -
  obtain b1 s1 where f1: "findODAConverter E s = (b1, s1)" by (cases "findODAConverter E s")
  obtain b2 s2 where f2: "findPythonRenderer E s1 = (b2, s2)" by (cases "findPythonRenderer E s1")
  from findODAConverter_trace [of E s] f1 obtain ws1 where
    t1: "trace s1 = trace s @ map Walk ws1" by auto
  from findPythonRenderer_trace [of E s1] f2 have t2: "trace s2 = trace s1" by simp
  have t3: "trace (findAllDWGFiles E s2) = trace s @ map Walk (ws1 @ getAvailableDrives E)"
    by (simp add: findAllDWGFiles_trace t1 t2)
  have "case_sum id snd (run_select E s) = s1 \<or> case_sum id snd (run_select E s) = s2
        \<or> case_sum id snd (run_select E s) = findAllDWGFiles E s2"
    by (simp add: run_select_def f1 f2 Let_def)
  with t1 t2 t3 show ?thesis by metis
qed

lemma convertDWGtoDXF_trace:
  "convertDWGtoDXF E f out s = (ok, out', s') \<Longrightarrow>
     \<exists>cmd wd. trace s' = trace s @ [CreateDirectories (slash (parent_path f) ''convertedDXF''), RunConverter cmd wd]"
  by (auto simp: convertDWGtoDXF_def Let_def split: if_splits)

text \<open>
  When \<open>run\<close> reaches stage 1 and \<open>convertDWGtoDXF\<close> returns \<open>false\<close>, \<open>run\<close>
  returns \<open>false\<close> and none of its effects belongs to stage 2.
\<close>

lemma failed_convertDWGtoDXF_stops_run:
  assumes sel: "run_select E new_DWGConverter = Inr (selected, s)"
    and failed: "\<not> fst (convertDWGtoDXF E selected [] s)"
  shows "\<not> fst (run E) \<and> (\<forall>e \<in> set (trace (snd (run E))). \<not> stage2_effect e)"
proof -
  obtain ok out s1 where c: "convertDWGtoDXF E selected [] s = (ok, out, s1)"
    by (cases "convertDWGtoDXF E selected [] s")
  with failed have nok: "\<not> ok" by simp
  from c nok sel have r: "run E = (False, s1)"
    by (simp add: run_def run_convert_def)
  from run_select_trace [of E new_DWGConverter] sel obtain ws where
    ts: "trace s = map Walk ws" by (auto simp: new_DWGConverter_def)
  from convertDWGtoDXF_trace [OF c] obtain cmd wd where
    t1: "trace s1 = trace s @ [CreateDirectories (slash (parent_path selected) ''convertedDXF''), RunConverter cmd wd]"
    by blast
  have "filename (slash (parent_path selected) ''convertedDXF'') = ''convertedDXF''
        \<or> filename (slash (parent_path selected) ''convertedDXF'') = []"
    by (simp add: filename_def slash_def)
  then have "\<not> stage2_effect (CreateDirectories (slash (parent_path selected) ''convertedDXF''))"
    by auto
  with r ts t1 show ?thesis by auto
qed

section \<open>The claims\<close>

subsection \<open>File scanner\<close>

text \<open>
  C1. The claim: no path of the candidate list lies below a directory whose name is on the
  skip-list. The code does not achieve it: in the scenario of the specification
  (\<open>C:\Windows\x.dwg\<close>, \<open>D:\proj\a.dwg\<close>, \<open>D:\proj\b.dwg\<close>) the scan returns
  \<open>C:\Windows\x.dwg\<close> as well, although \<open>Windows\<close> is on the skip-list. The \<open>continue\<close>
  passes over the entry of the directory itself; the iterator enters the directory all the
  same.
\<close>

theorem scan_collects_below_skipped_directory:
  "all_dwg_files (findAllDWGFiles scenario_env new_DWGConverter) =
     [[D_root, ''proj'', ''a.dwg''], [D_root, ''proj'', ''b.dwg''],
      [C_root, ''Windows'', ''x.dwg'']] \<and>
   should_skip ''Windows'' skip_folders"
  by code_simp

text \<open>
  C8. The candidate list is sorted ascending by file name (the last element of the path),
  and it is the same list whatever the object held before the scan: two scans of the same
  drives and files give the same list.
\<close>

theorem findAllDWGFiles_sorted:
  "sorted (map filename (all_dwg_files (findAllDWGFiles E s))) \<and>
   all_dwg_files (findAllDWGFiles E s) = all_dwg_files (findAllDWGFiles E s')"
  by (simp add: findAllDWGFiles_files)

theorem findAllDWGFiles_sorted_witness:
  "sorted (map filename (all_dwg_files (findAllDWGFiles scenario_env new_DWGConverter))) \<and>
   all_dwg_files (findAllDWGFiles scenario_env new_DWGConverter) =
     all_dwg_files (findAllDWGFiles scenario_env (findAllDWGFiles scenario_env new_DWGConverter)) \<and>
   map filename (all_dwg_files (findAllDWGFiles scenario_env new_DWGConverter)) =
     [''a.dwg'', ''b.dwg'', ''x.dwg'']"
proof -
  have "map filename (all_dwg_files (findAllDWGFiles scenario_env new_DWGConverter)) =
     [''a.dwg'', ''b.dwg'', ''x.dwg'']"
    by code_simp
  with findAllDWGFiles_sorted
         [of scenario_env new_DWGConverter "findAllDWGFiles scenario_env new_DWGConverter"]
  show ?thesis by simp
qed

text \<open>
  C10. A path is in the candidate list exactly when some entry of the walk of some
  enumerated drive has that path, is a regular file, and has an extension equal to
  \<open>.dwg\<close>, character by character. In particular \<open>PLAN.DWG\<close>, whose extension is \<open>.DWG\<close>,
  is not collected.
\<close>

theorem scan_extension_exact:
  "p \<in> set (all_dwg_files (findAllDWGFiles E s)) \<longleftrightarrow>
     (\<exists>d \<in> set (getAvailableDrives E).
        \<exists>e \<in> set (recursive_directory_iterator (files E) d).
          epath e = p \<and> is_regular_file e \<and> extension (epath e) = ''.dwg'')"
  by (auto simp: findAllDWGFiles_files dwg_paths_def)

theorem scan_extension_exact_witness:
  "recursive_directory_iterator (files case_env) D_root =
     [\<lparr>epath = [D_root, ''proj''], is_regular_file = False\<rparr>,
      \<lparr>epath = [D_root, ''proj'', ''site.dwg''], is_regular_file = True\<rparr>,
      \<lparr>epath = [D_root, ''proj'', ''PLAN.DWG''], is_regular_file = True\<rparr>] \<and>
   extension [D_root, ''proj'', ''PLAN.DWG''] = ''.DWG'' \<and>
   [D_root, ''proj'', ''site.dwg''] \<in> set (all_dwg_files (findAllDWGFiles case_env new_DWGConverter)) \<and>
   [D_root, ''proj'', ''PLAN.DWG''] \<notin> set (all_dwg_files (findAllDWGFiles case_env new_DWGConverter))"
proof -
  have w: "recursive_directory_iterator (files case_env) D_root =
     [\<lparr>epath = [D_root, ''proj''], is_regular_file = False\<rparr>,
      \<lparr>epath = [D_root, ''proj'', ''site.dwg''], is_regular_file = True\<rparr>,
      \<lparr>epath = [D_root, ''proj'', ''PLAN.DWG''], is_regular_file = True\<rparr>]"
    by code_simp
  have c: "recursive_directory_iterator (files case_env) C_root = []"
    by code_simp
  have d: "getAvailableDrives case_env = [C_root, D_root]"
    by code_simp
  have x1: "extension [D_root, ''proj'', ''PLAN.DWG''] = ''.DWG''"
    by code_simp
  have x2: "extension [D_root, ''proj'', ''site.dwg''] = ''.dwg''"
    by code_simp
  have x3: "extension [D_root, ''proj''] = []"
    by code_simp
  from scan_extension_exact [of "[D_root, ''proj'', ''site.dwg'']" case_env new_DWGConverter]
       scan_extension_exact [of "[D_root, ''proj'', ''PLAN.DWG'']" case_env new_DWGConverter]
       w c d x1 x2 x3
  show ?thesis by simp
qed

subsection \<open>Selection presenter\<close>

text \<open>
  C3. The claim: the number shown next to a file selects that file. The code does not
  achieve it: the listing numbers the files group by group, the groups in the order of
  their directories, while the selection indexes the list sorted by file name. With
  \<open>D:\a\z.dwg\<close> and \<open>D:\b\a.dwg\<close> the listing shows \<open>z.dwg\<close> as number 1, and the
  choice 1 selects \<open>D:\b\a.dwg\<close>.
\<close>

theorem displayed_number_selects_other_file:
  "displayDWGFiles (findAllDWGFiles (listing_env 1) new_DWGConverter) =
     [(1, [D_root, ''a'', ''z.dwg'']), (2, [D_root, ''b'', ''a.dwg''])] \<and>
   all_dwg_files (findAllDWGFiles (listing_env 1) new_DWGConverter) =
     [[D_root, ''b'', ''a.dwg''], [D_root, ''a'', ''z.dwg'']] \<and>
   selected_file (listing_env 1) = Some [D_root, ''b'', ''a.dwg'']"
  by code_simp

text \<open>
  C9. When both tools have been found and the number entered is not positive or exceeds the
  number of candidate files, \<open>run\<close> returns \<open>false\<close> with the object exactly as the scan
  left it (the candidate list included), having created no directory and started no
  process.
\<close>

theorem invalid_selection_rejected:
  assumes oda: "findODAConverter E new_DWGConverter = (True, s1)"
    and py: "findPythonRenderer E s1 = (True, s2)"
    and bad: "cin_choice E \<le> 0 \<or> cin_choice E > int (length (all_dwg_files (findAllDWGFiles E s2)))"
  shows "run E = (False, findAllDWGFiles E s2) \<and>
         (\<forall>e \<in> set (trace (snd (run E))). \<not> pipeline_effect e)"
proof -
  from oda py bad have sel: "run_select E new_DWGConverter = Inl (findAllDWGFiles E s2)"
    by (simp add: run_select_def Let_def)
  then have r: "run E = (False, findAllDWGFiles E s2)" by (simp add: run_def)
  from run_select_trace [of E new_DWGConverter] sel obtain ws where
    "trace (findAllDWGFiles E s2) = map Walk ws" by (auto simp: new_DWGConverter_def)
  with r show ?thesis by auto
qed

theorem invalid_selection_rejected_witness:
  "findODAConverter (listing_env 3) new_DWGConverter =
     (True, new_DWGConverter\<lparr>oda_converter_path := [D_root, ''tools'', ''ODAFileConverter.exe'']\<rparr>) \<and>
   findPythonRenderer (listing_env 3)
     (new_DWGConverter\<lparr>oda_converter_path := [D_root, ''tools'', ''ODAFileConverter.exe'']\<rparr>) =
     (True, new_DWGConverter\<lparr>oda_converter_path := [D_root, ''tools'', ''ODAFileConverter.exe''],
                              python_renderer_path := [D_root, ''tools'', ''dxf_renderer.py'']\<rparr>) \<and>
   length (all_dwg_files (findAllDWGFiles (listing_env 3)
     (new_DWGConverter\<lparr>oda_converter_path := [D_root, ''tools'', ''ODAFileConverter.exe''],
                        python_renderer_path := [D_root, ''tools'', ''dxf_renderer.py'']\<rparr>))) = 2 \<and>
   cin_choice (listing_env 3) = 3 \<and>
   run (listing_env 3) =
     (False, findAllDWGFiles (listing_env 3)
        (new_DWGConverter\<lparr>oda_converter_path := [D_root, ''tools'', ''ODAFileConverter.exe''],
                           python_renderer_path := [D_root, ''tools'', ''dxf_renderer.py'']\<rparr>)) \<and>
   filter pipeline_effect (trace (snd (run (listing_env 3)))) = []"
proof -
  let ?s1 = "new_DWGConverter\<lparr>oda_converter_path := [D_root, ''tools'', ''ODAFileConverter.exe'']\<rparr>"
  let ?s2 = "new_DWGConverter\<lparr>oda_converter_path := [D_root, ''tools'', ''ODAFileConverter.exe''],
                              python_renderer_path := [D_root, ''tools'', ''dxf_renderer.py'']\<rparr>"
  have h1: "findODAConverter (listing_env 3) new_DWGConverter = (True, ?s1)"
    by code_simp
  have h2: "findPythonRenderer (listing_env 3) ?s1 = (True, ?s2)"
    by code_simp
  have n: "length (all_dwg_files (findAllDWGFiles (listing_env 3) ?s2)) = 2"
    by code_simp
  have c: "cin_choice (listing_env 3) = 3"
    by code_simp
  from n c have h3: "cin_choice (listing_env 3) \<le> 0 \<or>
      cin_choice (listing_env 3) > int (length (all_dwg_files (findAllDWGFiles (listing_env 3) ?s2)))"
    by simp
  from invalid_selection_rejected [OF h1 h2 h3] h1 h2 n c show ?thesis
    by (simp add: filter_empty_conv)
qed

subsection \<open>Pipeline runner\<close>

text \<open>
  C2. The claim: stage 1 fails whenever the converter times out or ends with a non-zero exit
  code. The code does not achieve it: once the process has started, \<open>convertDWGtoDXF\<close>
  tests only whether the output file exists (the exit code goes into the error message and
  nowhere else). With \<open>convertedDXF\a.dxf\<close> left by an earlier run it returns \<open>true\<close>
  for a converter that ends with exit code 1, and for one that is still running when the wait
  times out.
\<close>

theorem convertDWGtoDXF_ignores_exit_code:
  "fst (convertDWGtoDXF (stale_env (Exited 1)) [D_root, ''proj'', ''a.dwg''] []
          new_DWGConverter) \<and>
   fst (snd (convertDWGtoDXF (stale_env (Exited 1)) [D_root, ''proj'', ''a.dwg''] []
               new_DWGConverter)) = [D_root, ''proj'', ''convertedDXF'', ''a.dxf''] \<and>
   fst (convertDWGtoDXF (stale_env TimedOut) [D_root, ''proj'', ''a.dwg''] []
          new_DWGConverter)"
  by code_simp

text \<open>
  C4. The claim: when stage 1 fails, a timeout included, the renderer is not started and no
  \<open>convertedPDF\<close> directory is created. The code does not achieve it for a timeout:
  \<open>run\<close> goes by the value that \<open>convertDWGtoDXF\<close> returns, and that value is \<open>true\<close>
  whenever the output file exists. With \<open>convertedDXF\a.dxf\<close> left by an earlier run and
  a converter that is still running when the wait times out, \<open>run\<close> creates
  \<open>D:\proj\convertedPDF\<close> and starts the renderer. (When \<open>convertDWGtoDXF\<close> does return
  \<open>false\<close>, \<open>run\<close> stops there: \<open>failed_convertDWGtoDXF_stops_run\<close>.)
\<close>

theorem stage2_runs_after_converter_timeout:
  "selected_file timeout_env = Some [D_root, ''proj'', ''a.dwg''] \<and>
   converter_process timeout_env
     (quoted (wstring [D_root, ''tools'', ''ODAFileConverter.exe'']) @ '' '' @
      quoted (wstring [D_root, ''proj'']) @ '' '' @
      quoted (wstring [D_root, ''proj'', ''convertedDXF'']) @ '' '' @
      ''ACAD2010 DXF 0 1 '' @ quoted ''a.dwg'') = TimedOut \<and>
   trace (snd (run timeout_env)) =
     [Walk C_root, Walk D_root,
      CreateDirectories [D_root, ''proj'', ''convertedDXF''],
      RunConverter
        (quoted (wstring [D_root, ''tools'', ''ODAFileConverter.exe'']) @ '' '' @
         quoted (wstring [D_root, ''proj'']) @ '' '' @
         quoted (wstring [D_root, ''proj'', ''convertedDXF'']) @ '' '' @
         ''ACAD2010 DXF 0 1 '' @ quoted ''a.dwg'')
        [D_root, ''tools''],
      CreateDirectories [D_root, ''proj'', ''convertedPDF''],
      RunRenderer
        (''python '' @ quoted (wstring [D_root, ''tools'', ''dxf_renderer.py'']) @ '' '' @
         quoted (wstring [D_root, ''proj'', ''convertedDXF'', ''a.dxf'']) @ '' '' @
         quoted (wstring [D_root, ''proj'', ''convertedPDF'', ''a.pdf'']))] \<and>
   filter stage2_effect (trace (snd (run timeout_env))) =
     [CreateDirectories [D_root, ''proj'', ''convertedPDF''],
      RunRenderer
        (''python '' @ quoted (wstring [D_root, ''tools'', ''dxf_renderer.py'']) @ '' '' @
         quoted (wstring [D_root, ''proj'', ''convertedDXF'', ''a.dxf'']) @ '' '' @
         quoted (wstring [D_root, ''proj'', ''convertedPDF'', ''a.pdf'']))]"
  by code_simp

subsection \<open>Tool locator\<close>

text \<open>
  C5, as claimed: the nearby phase looks in the working directory first. It does not: with a
  converter in the working directory \<open>C:\a\b\<close> and another in its grandparent \<open>C:\\<close>,
  \<open>findODAConverter\<close> returns the one in the grandparent.
\<close>

theorem nearby_order_counterexample:
  "fs_exists (files nearby_env) (slash (current_path nearby_env) ''ODAFileConverter.exe'') \<and>
   findODAConverter nearby_env new_DWGConverter =
     (True, new_DWGConverter\<lparr>oda_converter_path := [C_root, ''ODAFileConverter.exe'']\<rparr>) \<and>
   [C_root, ''ODAFileConverter.exe''] \<noteq> slash (current_path nearby_env) ''ODAFileConverter.exe''"
  by code_simp

text \<open>
  C5, amended: for the converter the nearby phase looks in the grandparent of the working
  directory first (when the parent has a parent path), then in the parent, then in the
  working directory, and returns the first hit in that order. Any nearby hit ends the
  search: no walk of a drive is started.
\<close>

theorem findODAConverter_nearby_order:
  assumes "(has_parent_path (parent_path (current_path E)) \<and>
            fs_exists (files E)
              (slash (parent_path (parent_path (current_path E))) ''ODAFileConverter.exe'')) \<or>
           fs_exists (files E) (slash (parent_path (current_path E)) ''ODAFileConverter.exe'') \<or>
           fs_exists (files E) (slash (current_path E) ''ODAFileConverter.exe'')"
  shows "findODAConverter E s =
           (True, s\<lparr>oda_converter_path :=
              slash
                (if has_parent_path (parent_path (current_path E)) \<and>
                    fs_exists (files E)
                      (slash (parent_path (parent_path (current_path E))) ''ODAFileConverter.exe'')
                 then parent_path (parent_path (current_path E))
                 else if fs_exists (files E)
                           (slash (parent_path (current_path E)) ''ODAFileConverter.exe'')
                 then parent_path (current_path E)
                 else current_path E)
                ''ODAFileConverter.exe''\<rparr>) \<and>
         trace (snd (findODAConverter E s)) = trace s"
  using assms by (auto simp: findODAConverter_def Let_def)

theorem findODAConverter_nearby_order_witness:
  "fs_exists (files nearby_env) (slash (current_path nearby_env) ''ODAFileConverter.exe'') \<and>
   findODAConverter nearby_env new_DWGConverter =
     (True, new_DWGConverter\<lparr>oda_converter_path :=
        slash (parent_path (parent_path (current_path nearby_env))) ''ODAFileConverter.exe''\<rparr>) \<and>
   trace (snd (findODAConverter nearby_env new_DWGConverter)) = trace new_DWGConverter"
proof -
  have h: "fs_exists (files nearby_env) (slash (current_path nearby_env) ''ODAFileConverter.exe'')"
    by code_simp
  have g: "has_parent_path (parent_path (current_path nearby_env)) \<and>
           fs_exists (files nearby_env)
             (slash (parent_path (parent_path (current_path nearby_env))) ''ODAFileConverter.exe'')"
    by code_simp
  from h have "(has_parent_path (parent_path (current_path nearby_env)) \<and>
            fs_exists (files nearby_env)
              (slash (parent_path (parent_path (current_path nearby_env))) ''ODAFileConverter.exe'')) \<or>
           fs_exists (files nearby_env) (slash (parent_path (current_path nearby_env)) ''ODAFileConverter.exe'') \<or>
           fs_exists (files nearby_env) (slash (current_path nearby_env) ''ODAFileConverter.exe'')"
    by blast
  from findODAConverter_nearby_order [OF this, of new_DWGConverter] g h show ?thesis
    by simp
qed

text \<open>
  C6, as claimed: for both tools a miss of the nearby phase is followed by a full walk of
  every enumerated drive, and NotFound comes only after all drives are exhausted. Neither
  half holds as it reads. The renderer locator has no walk at all: with \<open>dxf_renderer.py\<close>
  in \<open>D:\tools\<close>, where a walk of the enumerated drive \<open>D:\<close> yields it, and the working
  directory \<open>C:\a\b\<close>, \<open>findPythonRenderer\<close> returns \<open>false\<close> and has started no walk.
  The converter locator gives up a drive at its first file system error: with an unreadable
  \<open>D:\bad\<close> met before \<open>D:\y\<close>, which holds a converter and \<open>TD_Db.dll\<close>, the walk of
  \<open>D:\<close> yields \<open>D:\bad\<close> and nothing more, and \<open>findODAConverter\<close> returns \<open>false\<close>.
\<close>

theorem locator_fallback_counterexample:
  "getAvailableDrives remote_env = [C_root, D_root] \<and>
   \<lparr>epath = [D_root, ''tools'', ''dxf_renderer.py''], is_regular_file = True\<rparr>
     \<in> set (recursive_directory_iterator (files remote_env) D_root) \<and>
   findPythonRenderer remote_env new_DWGConverter = (False, new_DWGConverter) \<and>
   getAvailableDrives broken_env = [C_root, D_root] \<and>
   resolve (files broken_env) [D_root, ''y'', ''ODAFileConverter.exe''] =
     Some (File ''ODAFileConverter.exe'') \<and>
   has_dlls broken_env [D_root, ''y''] \<and>
   recursive_directory_iterator (files broken_env) D_root =
     [\<lparr>epath = [D_root, ''bad''], is_regular_file = False\<rparr>] \<and>
   findODAConverter broken_env new_DWGConverter =
     (False, new_DWGConverter\<lparr>trace := [Walk C_root, Walk D_root]\<rparr>)"
  by code_simp

text \<open>
  C6, amended: when the nearby phase finds no converter, \<open>findODAConverter\<close> walks the
  enumerated drives in order, each until its end or its first file system error, and
  succeeds exactly when one of these walks yields a regular file \<open>ODAFileConverter.exe\<close>
  with one of the libraries beside it; when it returns \<open>false\<close>, every enumerated drive has
  been walked. The renderer locator has no such fallback, in any environment: it succeeds
  exactly when \<open>dxf_renderer.py\<close> is in the working directory or its parent, and it starts
  no walk.
\<close>

theorem locator_full_drive_fallback:
  "(\<not> (has_parent_path (parent_path (current_path E)) \<and>
        fs_exists (files E)
          (slash (parent_path (parent_path (current_path E))) ''ODAFileConverter.exe'')) \<and>
    \<not> fs_exists (files E) (slash (parent_path (current_path E)) ''ODAFileConverter.exe'') \<and>
    \<not> fs_exists (files E) (slash (current_path E) ''ODAFileConverter.exe'') \<longrightarrow>
      (fst (findODAConverter E s) \<longleftrightarrow>
         (\<exists>d \<in> set (getAvailableDrives E).
            \<exists>e \<in> set (recursive_directory_iterator (files E) d).
              is_regular_file e \<and> filename (epath e) = ''ODAFileConverter.exe'' \<and>
              has_dlls E (parent_path (epath e)))) \<and>
      (\<not> fst (findODAConverter E s) \<longrightarrow>
         snd (findODAConverter E s) =
           s\<lparr>trace := trace s @ map Walk (getAvailableDrives E)\<rparr>)) \<and>
   (fst (findPythonRenderer E s') \<longleftrightarrow>
      fs_exists (files E) (slash (current_path E) ''dxf_renderer.py'') \<or>
      fs_exists (files E) (slash (parent_path (current_path E)) ''dxf_renderer.py'')) \<and>
   trace (snd (findPythonRenderer E s')) = trace s'"
proof (intro conjI impI)
  assume miss:
    "\<not> (has_parent_path (parent_path (current_path E)) \<and>
        fs_exists (files E)
          (slash (parent_path (parent_path (current_path E))) ''ODAFileConverter.exe'')) \<and>
     \<not> fs_exists (files E) (slash (parent_path (current_path E)) ''ODAFileConverter.exe'') \<and>
     \<not> fs_exists (files E) (slash (current_path E) ''ODAFileConverter.exe'')"
  then have eq: "findODAConverter E s = oda_in_drives E (getAvailableDrives E) s"
    by (auto simp: findODAConverter_def Let_def)
  show "fst (findODAConverter E s) \<longleftrightarrow>
         (\<exists>d \<in> set (getAvailableDrives E).
            \<exists>e \<in> set (recursive_directory_iterator (files E) d).
              is_regular_file e \<and> filename (epath e) = ''ODAFileConverter.exe'' \<and>
              has_dlls E (parent_path (epath e)))"
    using oda_in_drives_not_found [of E "getAvailableDrives E" s]
    by (simp add: eq acceptable_def) blast
  assume "\<not> fst (findODAConverter E s)"
  then show "snd (findODAConverter E s) =
           s\<lparr>trace := trace s @ map Walk (getAvailableDrives E)\<rparr>"
    using oda_in_drives_all_walked [of E "getAvailableDrives E" s] by (simp add: eq)
next
  show "fst (findPythonRenderer E s') \<longleftrightarrow>
      fs_exists (files E) (slash (current_path E) ''dxf_renderer.py'') \<or>
      fs_exists (files E) (slash (parent_path (current_path E)) ''dxf_renderer.py'')"
    by (simp add: findPythonRenderer_def Let_def)
next
  show "trace (snd (findPythonRenderer E s')) = trace s'"
    by (rule findPythonRenderer_trace)
qed

theorem locator_full_drive_fallback_witness:
  "\<not> (has_parent_path (parent_path (current_path scenario_env)) \<and>
       fs_exists (files scenario_env)
         (slash (parent_path (parent_path (current_path scenario_env))) ''ODAFileConverter.exe'')) \<and>
   \<not> fs_exists (files scenario_env)
       (slash (parent_path (current_path scenario_env)) ''ODAFileConverter.exe'') \<and>
   \<not> fs_exists (files scenario_env) (slash (current_path scenario_env) ''ODAFileConverter.exe'') \<and>
   \<not> fst (findODAConverter scenario_env new_DWGConverter) \<and>
   snd (findODAConverter scenario_env new_DWGConverter) =
     new_DWGConverter\<lparr>trace := [Walk C_root, Walk D_root]\<rparr> \<and>
   \<not> fst (findPythonRenderer scenario_env new_DWGConverter) \<and>
   trace (snd (findPythonRenderer scenario_env new_DWGConverter)) = [] \<and>
   fst (findODAConverter nearby_env new_DWGConverter) \<and>
   \<not> fst (findPythonRenderer nearby_env new_DWGConverter) \<and>
   trace (snd (findPythonRenderer nearby_env new_DWGConverter)) = []"
proof -
  have h: "\<not> (has_parent_path (parent_path (current_path scenario_env)) \<and>
       fs_exists (files scenario_env)
         (slash (parent_path (parent_path (current_path scenario_env))) ''ODAFileConverter.exe'')) \<and>
   \<not> fs_exists (files scenario_env)
       (slash (parent_path (current_path scenario_env)) ''ODAFileConverter.exe'') \<and>
   \<not> fs_exists (files scenario_env) (slash (current_path scenario_env) ''ODAFileConverter.exe'')"
    by code_simp
  have h4: "\<not> fst (findODAConverter scenario_env new_DWGConverter)"
    by code_simp
  have d: "getAvailableDrives scenario_env = [C_root, D_root]"
    by code_simp
  have t: "trace new_DWGConverter = []"
    by (simp add: new_DWGConverter_def)
  have r: "\<not> fst (findPythonRenderer scenario_env new_DWGConverter)"
    by code_simp
  have n: "fst (findODAConverter nearby_env new_DWGConverter)"
    by code_simp
  have r': "\<not> (fs_exists (files nearby_env) (slash (current_path nearby_env) ''dxf_renderer.py'') \<or>
      fs_exists (files nearby_env) (slash (parent_path (current_path nearby_env)) ''dxf_renderer.py''))"
    by code_simp
  from locator_full_drive_fallback [of scenario_env new_DWGConverter new_DWGConverter]
       locator_full_drive_fallback [of nearby_env new_DWGConverter new_DWGConverter]
       h h4 d t r n r'
  show ?thesis by simp
qed

text \<open>
  C7. In the walk of the drives, a file \<open>ODAFileConverter.exe\<close> whose directory holds none
  of \<open>TD_Db.dll\<close>, \<open>TG_Db.dll\<close>, \<open>TD_Root.dll\<close> is passed over and the loop goes on with
  the entries after it; a path that the walk accepts is named \<open>ODAFileConverter.exe\<close> and
  has at least one of the three libraries beside it.
\<close>

theorem oda_walk_rejects_without_dlls:
  "(oda_in_drives E ds s = (True, s') \<longrightarrow>
      filename (oda_converter_path s') = ''ODAFileConverter.exe'' \<and>
      has_dlls E (parent_path (oda_converter_path s'))) \<and>
   (filename (epath e) = ''ODAFileConverter.exe'' \<and> \<not> has_dlls E (parent_path (epath e)) \<longrightarrow>
      oda_in_entries E (e # es) = oda_in_entries E es)"
proof (rule conjI; rule impI)
  assume "oda_in_drives E ds s = (True, s')"
  from oda_in_drives_found [OF this]
  show "filename (oda_converter_path s') = ''ODAFileConverter.exe'' \<and>
      has_dlls E (parent_path (oda_converter_path s'))"
    by (auto simp: acceptable_def)
next
  assume "filename (epath e) = ''ODAFileConverter.exe'' \<and> \<not> has_dlls E (parent_path (epath e))"
  then show "oda_in_entries E (e # es) = oda_in_entries E es" by simp
qed

theorem oda_walk_rejects_without_dlls_witness:
  "oda_in_drives remote_env [C_root, D_root] new_DWGConverter =
     (True, new_DWGConverter\<lparr>oda_converter_path := [D_root, ''y'', ''ODAFileConverter.exe''],
                              trace := [Walk C_root, Walk D_root]\<rparr>) \<and>
   has_dlls remote_env [D_root, ''y''] \<and>
   \<not> has_dlls remote_env [D_root, ''x''] \<and>
   oda_in_entries remote_env
     [\<lparr>epath = [D_root, ''x'', ''ODAFileConverter.exe''], is_regular_file = True\<rparr>,
      \<lparr>epath = [D_root, ''y'', ''ODAFileConverter.exe''], is_regular_file = True\<rparr>] =
   oda_in_entries remote_env
     [\<lparr>epath = [D_root, ''y'', ''ODAFileConverter.exe''], is_regular_file = True\<rparr>]"
proof -
  let ?s' = "new_DWGConverter\<lparr>oda_converter_path := [D_root, ''y'', ''ODAFileConverter.exe''],
                              trace := [Walk C_root, Walk D_root]\<rparr>"
  let ?e = "\<lparr>epath = [D_root, ''x'', ''ODAFileConverter.exe''], is_regular_file = True\<rparr>"
  have h1: "oda_in_drives remote_env [C_root, D_root] new_DWGConverter = (True, ?s')"
    by code_simp
  have h2: "filename (epath ?e) = ''ODAFileConverter.exe'' \<and>
            \<not> has_dlls remote_env (parent_path (epath ?e))"
    by code_simp
  have p: "parent_path (epath ?e) = [D_root, ''x'']"
    by code_simp
  have q: "parent_path (oda_converter_path ?s') = [D_root, ''y'']"
    by code_simp
  from oda_walk_rejects_without_dlls
         [of remote_env "[C_root, D_root]" new_DWGConverter ?s' ?e
             "[\<lparr>epath = [D_root, ''y'', ''ODAFileConverter.exe''], is_regular_file = True\<rparr>]"]
       h1 h2 p q
  show ?thesis by simp
qed

end
